theory Spec2Isabelle
  imports Main "HOL-Library.Word"
begin

section \<open>Errors, faults, the logger and the trace of calls\<close>

text \<open>
  A Go \<^verbatim>\<open>error\<close> value is modelled by its message (what \<^verbatim>\<open>err.Error()\<close>
  returns); \<^verbatim>\<open>nil\<close> is \<open>None\<close> of \<open>error option\<close>. A run-time panic is a
  \<open>fault\<close>: a function that can panic returns \<open>fault + 'a\<close>.
\<close>

datatype error = GoError string

fun Error_msg :: "error \<Rightarrow> string" where
  "Error_msg (GoError m) = m"

datatype fault = NilPointerDereference | NonPositiveTickerInterval

text \<open>A \<^verbatim>\<open>logr.Logger\<close> is the list of names given to it by \<^verbatim>\<open>WithName\<close>.\<close>

type_synonym Logger = "string list"

definition WithName :: "Logger \<Rightarrow> string \<Rightarrow> Logger" where
  "WithName lg n = lg @ [n]"

text \<open>
  The three pipeline fields of a Buffer, and the calls a Buffer makes on its
  collaborators (logger, device manager, pipelines), recorded oldest first.
\<close>

datatype pipe_id = Pbk | Buf | Rec

datatype event =
    LogInfo Logger string
  | LogError Logger error string
  | AddSinkCall string string
  | AddSourceCall string string string string int int
  | SetDefaultSourceCall string
  | DestroyCall
  | PipelineStart pipe_id
  | PipelineWait pipe_id
  | PipelineClose pipe_id
  | GoReadinessTask

section \<open>Pipelines (package gst)\<close>

text \<open>
  Modelled from the spec: package \<^verbatim>\<open>gst\<close> (type \<^verbatim>\<open>Pipeline\<close>, its builder
  methods and its \<^verbatim>\<open>Start\<close>, \<^verbatim>\<open>Wait\<close>, \<^verbatim>\<open>IsClosed\<close> and
  \<^verbatim>\<open>Close\<close>) is not among the sources. Following the spec, a pipeline holds
  the identity of its owner, an ordered sequence of stage descriptors and a closed flag;
  each \<^verbatim>\<open>WithX\<close> call appends one stage descriptor and returns the builder.
\<close>

datatype stage =
    PulseSrc string string int int
  | VorbisEncode
  | OggMux
  | Cutter
  | OpusEncode
  | WebmMux
  | LameEncode
  | FdSink int
  | TCPSrc string int bool
  | Caps string "(string \<times> string) list option"
  | Plugin string
  | OpusDecode bool
  | FileSink string bool
  | FdSrc int
  | OggDemux

record Pipeline =
  p_userID :: string
  p_logger :: Logger
  stages :: "stage list"
  p_started :: bool
  p_closed :: bool

definition NewPipeline :: "string \<Rightarrow> Logger \<Rightarrow> Pipeline" where
  "NewPipeline uid lg =
     \<lparr>p_userID = uid, p_logger = lg, stages = [], p_started = False, p_closed = False\<rparr>"

definition WithStage :: "stage \<Rightarrow> Pipeline \<Rightarrow> Pipeline" where
  "WithStage s p = p\<lparr>stages := stages p @ [s]\<rparr>"

definition WithPulseSrc :: "string \<Rightarrow> string \<Rightarrow> int \<Rightarrow> int \<Rightarrow> Pipeline \<Rightarrow> Pipeline" where
  "WithPulseSrc uid dev ch rate = WithStage (PulseSrc uid dev ch rate)"

definition WithVorbisEncode :: "Pipeline \<Rightarrow> Pipeline" where
  "WithVorbisEncode = WithStage VorbisEncode"

definition WithOggMux :: "Pipeline \<Rightarrow> Pipeline" where
  "WithOggMux = WithStage OggMux"

definition WithCutter :: "Pipeline \<Rightarrow> Pipeline" where
  "WithCutter = WithStage Cutter"

definition WithOpusEncode :: "Pipeline \<Rightarrow> Pipeline" where
  "WithOpusEncode = WithStage OpusEncode"

definition WithWebmMux :: "Pipeline \<Rightarrow> Pipeline" where
  "WithWebmMux = WithStage WebmMux"

definition WithLameEncode :: "Pipeline \<Rightarrow> Pipeline" where
  "WithLameEncode = WithStage LameEncode"

definition WithFdSink :: "int \<Rightarrow> Pipeline \<Rightarrow> Pipeline" where
  "WithFdSink fd = WithStage (FdSink fd)"

definition WithTCPSrc :: "string \<Rightarrow> int \<Rightarrow> bool \<Rightarrow> Pipeline \<Rightarrow> Pipeline" where
  "WithTCPSrc host port listen = WithStage (TCPSrc host port listen)"

definition WithCaps :: "string \<Rightarrow> (string \<times> string) list option \<Rightarrow> Pipeline \<Rightarrow> Pipeline" where
  "WithCaps mime params = WithStage (Caps mime params)"

definition WithPlugin :: "string \<Rightarrow> Pipeline \<Rightarrow> Pipeline" where
  "WithPlugin descr = WithStage (Plugin descr)"

definition WithOpusDecode :: "bool \<Rightarrow> Pipeline \<Rightarrow> Pipeline" where
  "WithOpusDecode plc = WithStage (OpusDecode plc)"

definition WithFileSink :: "string \<Rightarrow> bool \<Rightarrow> Pipeline \<Rightarrow> Pipeline" where
  "WithFileSink path async = WithStage (FileSink path async)"

definition WithFdSrc :: "int \<Rightarrow> Pipeline \<Rightarrow> Pipeline" where
  "WithFdSrc fd = WithStage (FdSrc fd)"

definition WithOggDemux :: "Pipeline \<Rightarrow> Pipeline" where
  "WithOggDemux = WithStage OggDemux"

section \<open>The device manager (package pa)\<close>

text \<open>
  Modelled from the spec: package \<^verbatim>\<open>pa\<close> (type \<^verbatim>\<open>DeviceManager\<close>) is not among
  the sources. Following the spec, a device manager holds the session identity and the
  names of the devices it has provisioned; \<^verbatim>\<open>Destroy\<close> releases them all.
\<close>

record DeviceManager =
  dm_logger :: Logger
  dm_userID :: string
  dm_devices :: "string list"

definition NewDeviceManager :: "Logger \<Rightarrow> string \<Rightarrow> DeviceManager" where
  "NewDeviceManager lg uid = \<lparr>dm_logger = lg, dm_userID = uid, dm_devices = []\<rparr>"

section \<open>The Buffer (buffer.go)\<close>

type_synonym Codec = string

definition CodecOpus :: Codec where "CodecOpus = ''opus''"
definition CodecVorbis :: Codec where "CodecVorbis = ''vorbis''"
definition CodecMP3 :: Codec where "CodecMP3 = ''mp3''"
definition CodecRaw :: Codec where "CodecRaw = ''raw''"

text \<open>
  The struct \<^verbatim>\<open>Buffer\<close>. The three pipeline fields are pointers, \<^verbatim>\<open>nil\<close>
  (\<open>None\<close>) until \<^verbatim>\<open>Start\<close> assigns them. The field \<open>history\<close> is not a field
  of the struct: it records the calls made on the collaborators so far.
\<close>

record Buffer =
  logger :: Logger
  deviceManager :: DeviceManager
  pbkPipeline :: "Pipeline option"
  bufPipeline :: "Pipeline option"
  recPipeline :: "Pipeline option"
  channels :: int
  sampleRate :: int
  userID :: string
  nullSinkID :: string
  inputDeviceID :: string
  closed :: bool
  history :: "event list"

definition NewBuffer :: "Logger \<Rightarrow> string \<Rightarrow> Buffer" where
  "NewBuffer lg uid =
     \<lparr>logger = WithName lg ''audio_buffer'',
      deviceManager = NewDeviceManager (WithName lg ''pa_devices'') uid,
      pbkPipeline = None, bufPipeline = None, recPipeline = None,
      channels = 2, sampleRate = 24000,
      userID = uid, nullSinkID = [], inputDeviceID = [],
      closed = False, history = []\<rparr>"

definition emit :: "event \<Rightarrow> Buffer \<Rightarrow> Buffer" where
  "emit ev a = a\<lparr>history := history a @ [ev]\<rparr>"

text \<open>
  \<^verbatim>\<open>buildPlaybackPipeline\<close>: the switch on the codec, with the log line of the
  default branch. It returns the pipeline; the Buffer changes only by that log line.
\<close>

definition buildPlaybackPipeline :: "Buffer \<Rightarrow> Codec \<Rightarrow> Pipeline \<times> Buffer" where
  "buildPlaybackPipeline a codec =
     (let pipeline = WithPulseSrc (userID a) ''kvdi.monitor'' (channels a) (sampleRate a)
                       (NewPipeline (userID a) (WithName (logger a) ''gst_playback''));
          (pipeline', a') =
            (if codec = CodecVorbis then (WithOggMux (WithVorbisEncode pipeline), a)
             else if codec = CodecOpus then
               (WithWebmMux (WithOpusEncode (WithCutter pipeline)), a)
             else if codec = CodecMP3 then (WithLameEncode pipeline, a)
             else
               (WithWebmMux (WithOpusEncode (WithCutter pipeline)),
                emit (LogInfo (logger a)
                  (''Invalid codec for gst pipeline '' @ codec @ '', defaulting to opus/webm'')) a))
      in (WithFdSink 1 pipeline', a'))"

text \<open>\<^verbatim>\<open>buildRecordingPipelines\<close>: the network-buffer and the recorder pipeline.\<close>

definition buildRecordingPipelines :: "Buffer \<Rightarrow> Codec \<Rightarrow> Pipeline \<times> Pipeline" where
  "buildRecordingPipelines a codec =
     (let bufP =
            WithFileSink ''/mnt/home/test.raw'' True
             (WithOpusDecode True
               (WithPlugin ''rtpopusdepay''
                 (WithPlugin ''rtpjitterbuffer latency=20 do-lost=True''
                   (WithCaps ''application/x-rtp'' None
                     (WithTCPSrc ''127.0.0.1'' 9004 True
                       (NewPipeline (userID a) (WithName (logger a) ''gst_buffer'')))))));
          recP =
            WithPlugin ''tcpclientsink host=127.0.0.1 port=9004''
             (WithPlugin ''rtpopuspay''
               (WithOggDemux
                 (WithFdSrc 0
                   (NewPipeline (userID a) (WithName (logger a) ''gst_recorder'')))))
      in (bufP, recP))"

section \<open>Strings and numbers of the Go library\<close>

text \<open>\<^verbatim>\<open>strings.Join\<close>.\<close>

fun Join :: "string list \<Rightarrow> string \<Rightarrow> string" where
  "Join [] sep = []"
| "Join [x] sep = x"
| "Join (x # y # ys) sep = x @ sep @ Join (y # ys) sep"

text \<open>\<^verbatim>\<open>strings.Contains\<close>: the second string occurs in the first.\<close>

fun Contains :: "string \<Rightarrow> string \<Rightarrow> bool" where
  "Contains [] substr = (substr = [])"
| "Contains (c # cs) substr = (take (length substr) (c # cs) = substr \<or> Contains cs substr)"

text \<open>\<^verbatim>\<open>strings.ToUpper\<close>, on the ASCII letters.\<close>

definition upper_char :: "char \<Rightarrow> char" where
  "upper_char c =
     (case map_of (zip ''abcdefghijklmnopqrstuvwxyz'' ''ABCDEFGHIJKLMNOPQRSTUVWXYZ'') c of
        Some u \<Rightarrow> u
      | None \<Rightarrow> c)"

definition ToUpper :: "string \<Rightarrow> string" where
  "ToUpper s = map upper_char s"

text \<open>
  \<^verbatim>\<open>strconv.FormatInt\<close> (also what \<^verbatim>\<open>%d\<close> prints, with base 10): the digits
  of the magnitude, most significant first, taken from the digit string of the library,
  a minus sign before a negative number. The bases used here are 10 and 16.
\<close>

definition digit_char :: "nat \<Rightarrow> char" where
  "digit_char d =
     (if d < 36 then ''0123456789abcdefghijklmnopqrstuvwxyz'' ! d else CHR ''?'')"

function format_nat :: "nat \<Rightarrow> nat \<Rightarrow> string" where
  "format_nat b n =
     (if b < 2 \<or> n < b then [digit_char n]
      else format_nat b (n div b) @ [digit_char (n mod b)])"
  by pat_completeness auto
termination
  by (relation "measure snd") auto

definition FormatInt :: "int \<Rightarrow> int \<Rightarrow> string" where
  "FormatInt i base =
     (if i < 0 then CHR ''-'' # format_nat (nat base) (nat (- i))
      else format_nat (nat base) (nat i))"

text \<open>
  \<^verbatim>\<open>time.Second * time.Duration(interval)\<close>: a count of nanoseconds in a signed
  64-bit integer, so the product wraps.
\<close>

definition seconds :: "int \<Rightarrow> int" where
  "seconds interval = sint (word_of_int (1000000000 * interval) :: 64 word)"

section \<open>The host: outcomes of the calls that leave the Buffer\<close>

text \<open>
  What opening, reading and closing a file of \<^verbatim>\<open>/proc\<close> gives at one tick of the
  ticker: one of the three calls fails, or the body is read.
\<close>

datatype proc_read = OpenFails error | ReadFails error | CloseFails error | Body string

text \<open>
  The outcomes the code cannot decide: whether a device-manager call or a pipeline's
  \<^verbatim>\<open>Start\<close>, \<^verbatim>\<open>Wait\<close> or \<^verbatim>\<open>Close\<close> returns an error, the process
  id of a started pipeline, and what the file at a path holds at the k-th tick.
\<close>

record env =
  addSinkErr :: "error option"
  addSourceErr :: "error option"
  setDefaultSourceErr :: "error option"
  startErr :: "pipe_id \<Rightarrow> error option"
  waitErr :: "pipe_id \<Rightarrow> error option"
  closeErr :: "pipe_id \<Rightarrow> error option"
  pidOf :: "pipe_id \<Rightarrow> int"
  procFile :: "string \<Rightarrow> nat \<Rightarrow> proc_read"

text \<open>
  Modelled from the spec: the methods of \<^verbatim>\<open>pa.DeviceManager\<close> (not among the
  sources). A call either fails with a provisioning error, leaving the manager as it
  was, or provisions the named device; \<^verbatim>\<open>Destroy\<close> releases every device and
  reports nothing.
\<close>

definition AddSink :: "env \<Rightarrow> string \<Rightarrow> string \<Rightarrow> DeviceManager \<Rightarrow> error option \<times> DeviceManager" where
  "AddSink e name descr dm =
     (case addSinkErr e of
        Some err \<Rightarrow> (Some err, dm)
      | None \<Rightarrow> (None, dm\<lparr>dm_devices := dm_devices dm @ [name]\<rparr>))"

definition AddSource ::
  "env \<Rightarrow> string \<Rightarrow> string \<Rightarrow> string \<Rightarrow> string \<Rightarrow> int \<Rightarrow> int \<Rightarrow> DeviceManager
     \<Rightarrow> error option \<times> DeviceManager" where
  "AddSource e name descr fifo fmt chans rate dm =
     (case addSourceErr e of
        Some err \<Rightarrow> (Some err, dm)
      | None \<Rightarrow> (None, dm\<lparr>dm_devices := dm_devices dm @ [name]\<rparr>))"

definition SetDefaultSource :: "env \<Rightarrow> string \<Rightarrow> DeviceManager \<Rightarrow> error option \<times> DeviceManager" where
  "SetDefaultSource e name dm = (setDefaultSourceErr e, dm)"

definition Destroy :: "DeviceManager \<Rightarrow> DeviceManager" where
  "Destroy dm = dm\<lparr>dm_devices := []\<rparr>"

text \<open>
  Modelled from the spec: the methods of \<^verbatim>\<open>gst.Pipeline\<close> (not among the
  sources). \<^verbatim>\<open>Start\<close> spawns the process or returns an error; \<^verbatim>\<open>Wait\<close>
  returns the exit error; \<^verbatim>\<open>Close\<close> returns an error or completes, and
  \<^verbatim>\<open>IsClosed\<close> is true once \<^verbatim>\<open>Close\<close> has completed.
\<close>

definition pipeline_Start :: "env \<Rightarrow> pipe_id \<Rightarrow> Pipeline \<Rightarrow> error option \<times> Pipeline" where
  "pipeline_Start e i p =
     (case startErr e i of
        Some err \<Rightarrow> (Some err, p)
      | None \<Rightarrow> (None, p\<lparr>p_started := True\<rparr>))"

definition pipeline_Wait :: "env \<Rightarrow> pipe_id \<Rightarrow> Pipeline \<Rightarrow> error option" where
  "pipeline_Wait e i p = waitErr e i"

definition pipeline_Close :: "env \<Rightarrow> pipe_id \<Rightarrow> Pipeline \<Rightarrow> error option \<times> Pipeline" where
  "pipeline_Close e i p =
     (case closeErr e i of
        Some err \<Rightarrow> (Some err, p)
      | None \<Rightarrow> (None, p\<lparr>p_closed := True\<rparr>))"

definition pipeline_IsClosed :: "Pipeline \<Rightarrow> bool" where
  "pipeline_IsClosed p = p_closed p"

text \<open>
  A method called through one of the Buffer's three pointer fields; each call is
  recorded in the history. What a method of \<^verbatim>\<open>gst.Pipeline\<close> does on a
  \<^verbatim>\<open>nil\<close> receiver is decided in package \<^verbatim>\<open>gst\<close>; here such a call is
  taken to be a nil-pointer dereference, as for a method that reads its receiver. The
  theorems of this file are about Buffers whose fields are assigned and do not rest on
  that branch.
\<close>

fun field :: "pipe_id \<Rightarrow> Buffer \<Rightarrow> Pipeline option" where
  "field Pbk a = pbkPipeline a"
| "field Buf a = bufPipeline a"
| "field Rec a = recPipeline a"

fun set_field :: "pipe_id \<Rightarrow> Pipeline \<Rightarrow> Buffer \<Rightarrow> Buffer" where
  "set_field Pbk p a = a\<lparr>pbkPipeline := Some p\<rparr>"
| "set_field Buf p a = a\<lparr>bufPipeline := Some p\<rparr>"
| "set_field Rec p a = a\<lparr>recPipeline := Some p\<rparr>"

definition field_Start :: "env \<Rightarrow> pipe_id \<Rightarrow> Buffer \<Rightarrow> fault + error option \<times> Buffer" where
  "field_Start e i a =
     (case field i a of
        None \<Rightarrow> Inl NilPointerDereference
      | Some p \<Rightarrow>
          (let (r, p') = pipeline_Start e i p
           in Inr (r, emit (PipelineStart i) (set_field i p' a))))"

definition field_Wait :: "env \<Rightarrow> pipe_id \<Rightarrow> Buffer \<Rightarrow> fault + error option \<times> Buffer" where
  "field_Wait e i a =
     (case field i a of
        None \<Rightarrow> Inl NilPointerDereference
      | Some p \<Rightarrow> Inr (pipeline_Wait e i p, emit (PipelineWait i) a))"

definition field_Close :: "env \<Rightarrow> pipe_id \<Rightarrow> Buffer \<Rightarrow> fault + error option \<times> Buffer" where
  "field_Close e i a =
     (case field i a of
        None \<Rightarrow> Inl NilPointerDereference
      | Some p \<Rightarrow>
          (let (r, p') = pipeline_Close e i p
           in Inr (r, emit (PipelineClose i) (set_field i p' a))))"

definition field_IsClosed :: "pipe_id \<Rightarrow> Buffer \<Rightarrow> fault + bool" where
  "field_IsClosed i a =
     (case field i a of
        None \<Rightarrow> Inl NilPointerDereference
      | Some p \<Rightarrow> Inr (pipeline_IsClosed p))"

section \<open>The Buffer's methods (buffer.go)\<close>

text \<open>\<^verbatim>\<open>setupDevices\<close>: the sink, the FIFO-backed source, the default source.\<close>

definition setupDevices :: "env \<Rightarrow> Buffer \<Rightarrow> error option \<times> Buffer" where
  "setupDevices e a =
     (let (r1, dm1) = AddSink e ''kvdi'' ''kvdi-playback'' (deviceManager a);
          a1 = emit (AddSinkCall ''kvdi'' ''kvdi-playback'') (a\<lparr>deviceManager := dm1\<rparr>)
      in case r1 of
           Some err \<Rightarrow> (Some err, a1)
         | None \<Rightarrow>
             (let fifo = ''/run/user/'' @ userID a1 @ ''/pulse/mic.fifo'';
                  (r2, dm2) = AddSource e ''virtmic'' ''kvdi-microphone'' fifo ''s16le'' 1 16000
                                (deviceManager a1);
                  a2 = emit (AddSourceCall ''virtmic'' ''kvdi-microphone'' fifo ''s16le'' 1 16000)
                         (a1\<lparr>deviceManager := dm2\<rparr>)
              in case r2 of
                   Some err \<Rightarrow> (Some err, a2)
                 | None \<Rightarrow>
                     (let (r3, dm3) = SetDefaultSource e ''virtmic'' (deviceManager a2)
                      in (r3, emit (SetDefaultSourceCall ''virtmic'')
                                (a2\<lparr>deviceManager := dm3\<rparr>)))))"

definition SetChannels :: "int \<Rightarrow> Buffer \<Rightarrow> Buffer" where
  "SetChannels c a = a\<lparr>channels := c\<rparr>"

definition SetSampleRate :: "int \<Rightarrow> Buffer \<Rightarrow> Buffer" where
  "SetSampleRate r a = a\<lparr>sampleRate := r\<rparr>"

text \<open>
  The loop of \<^verbatim>\<open>waitForProcPort\<close>, one iteration per tick of the ticker. The
  first argument bounds the ticks looked at: \<open>None\<close> says that the loop is still
  running after that many ticks. A result carries the returned error (or \<^verbatim>\<open>nil\<close>)
  and the number of checks of the file made. The variable \<^verbatim>\<open>tries\<close> is passed on
  as it is: the loop body does not assign it.
\<close>

fun pollLoop ::
  "nat \<Rightarrow> (nat \<Rightarrow> proc_read) \<Rightarrow> string \<Rightarrow> error \<Rightarrow> int \<Rightarrow> int \<Rightarrow> nat
     \<Rightarrow> (error option \<times> nat) option" where
  "pollLoop 0 file portHex limitErr tries retries k = None"
| "pollLoop (Suc fuel) file portHex limitErr tries retries k =
     (case file k of
        OpenFails err \<Rightarrow> Some (Some err, Suc k)
      | ReadFails err \<Rightarrow> Some (Some err, Suc k)
      | CloseFails err \<Rightarrow> Some (Some err, Suc k)
      | Body body \<Rightarrow>
          if Contains body portHex then Some (None, Suc k)
          else if tries = retries then Some (Some limitErr, Suc k)
          else pollLoop fuel file portHex limitErr tries retries (Suc k))"

text \<open>
  \<^verbatim>\<open>waitForProcPort\<close>. \<^verbatim>\<open>time.NewTicker\<close> panics on a duration that is
  not positive.
\<close>

definition waitForProcPort ::
  "nat \<Rightarrow> env \<Rightarrow> string \<Rightarrow> int \<Rightarrow> int \<Rightarrow> int \<Rightarrow> int
     \<Rightarrow> (fault + error option \<times> nat) option" where
  "waitForProcPort fuel e proto pid port retries interval =
     (let portHex = ToUpper (FormatInt port 16);
          tries = 0;
          path = ''/proc/'' @ FormatInt pid 10 @ ''/net/'' @ proto;
          limitErr = GoError (''Hit retry limit waiting for port '' @ proto @ ''/'' @
                       FormatInt port 10 @ '' on PID '' @ FormatInt pid 10)
      in if seconds interval \<le> 0 then Some (Inl NonPositiveTickerInterval)
         else map_option Inr (pollLoop fuel (procFile e path) portHex limitErr tries retries 0))"

text \<open>
  \<^verbatim>\<open>Start\<close>, up to the \<^verbatim>\<open>go\<close> statement: the function returns once the
  playback and the network-buffer pipeline are started and the task is launched.
\<close>

definition Start :: "env \<Rightarrow> Buffer \<Rightarrow> Codec \<Rightarrow> fault + error option \<times> Buffer" where
  "Start e a codec =
     (case setupDevices e a of
        (Some err, a1) \<Rightarrow> Inr (Some err, a1)
      | (None, a1) \<Rightarrow>
          (let (pbk, a2) = buildPlaybackPipeline a1 codec;
               a3 = a2\<lparr>pbkPipeline := Some pbk\<rparr>;
               (bufP, recP) = buildRecordingPipelines a3 codec;
               a4 = a3\<lparr>bufPipeline := Some bufP, recPipeline := Some recP\<rparr>
           in case field_Start e Pbk a4 of
                Inl f \<Rightarrow> Inl f
              | Inr (Some err, a5) \<Rightarrow> Inr (Some err, a5)
              | Inr (None, a5) \<Rightarrow>
                  (case field_Start e Buf a5 of
                     Inl f \<Rightarrow> Inl f
                   | Inr (Some err, a6) \<Rightarrow> Inr (Some err, a6)
                   | Inr (None, a6) \<Rightarrow> Inr (None, emit GoReadinessTask a6))))"

text \<open>
  The body of the task that \<^verbatim>\<open>Start\<close> launches: wait for port 9004 of the
  network-buffer pipeline with 5 retries at 1 second, then start the recorder. \<open>None\<close>
  says that the task is still running after the given number of ticks.
\<close>

definition readinessTask :: "nat \<Rightarrow> env \<Rightarrow> Buffer \<Rightarrow> (fault + Buffer) option" where
  "readinessTask fuel e a =
     (case bufPipeline a of
        None \<Rightarrow> Some (Inl NilPointerDereference)
      | Some bufP \<Rightarrow>
          (case waitForProcPort fuel e ''tcp'' (pidOf e Buf) 9004 5 1 of
             None \<Rightarrow> None
           | Some (Inl f) \<Rightarrow> Some (Inl f)
           | Some (Inr (Some err, n)) \<Rightarrow>
               Some (Inr (emit (LogError (logger a) err ''Buffer port did not become available'') a))
           | Some (Inr (None, n)) \<Rightarrow>
               (case field_Start e Rec a of
                  Inl f \<Rightarrow> Some (Inl f)
                | Inr (Some err, a1) \<Rightarrow>
                    Some (Inr (emit (LogError (logger a1) err ''Failed to start recorder pipeline.'') a1))
                | Inr (None, a1) \<Rightarrow> Some (Inr a1))))"

text \<open>
  \<^verbatim>\<open>Wait\<close>: the three pipelines in the order playback, network-buffer, recorder;
  the messages of the errors are collected and joined.
\<close>

definition wait_step ::
  "env \<Rightarrow> pipe_id \<Rightarrow> Buffer \<times> string list \<Rightarrow> fault + Buffer \<times> string list" where
  "wait_step e i s =
     (case field_Wait e i (fst s) of
        Inl f \<Rightarrow> Inl f
      | Inr (Some err, a') \<Rightarrow> Inr (a', snd s @ [Error_msg err])
      | Inr (None, a') \<Rightarrow> Inr (a', snd s))"

definition Wait :: "env \<Rightarrow> Buffer \<Rightarrow> fault + error option \<times> Buffer" where
  "Wait e a =
     (case wait_step e Pbk (a, []) of
        Inl f \<Rightarrow> Inl f
      | Inr s1 \<Rightarrow>
          (case wait_step e Buf s1 of
             Inl f \<Rightarrow> Inl f
           | Inr s2 \<Rightarrow>
               (case wait_step e Rec s2 of
                  Inl f \<Rightarrow> Inl f
                | Inr (a3, errs) \<Rightarrow>
                    if length errs > 0 then Inr (Some (GoError (Join errs '' : '')), a3)
                    else Inr (None, a3))))"

text \<open>
  \<^verbatim>\<open>IsClosed\<close>: the conjunction is evaluated left to right and stops at the
  first false operand.
\<close>

definition IsClosed :: "Buffer \<Rightarrow> fault + bool" where
  "IsClosed a =
     (case field_IsClosed Pbk a of
        Inl f \<Rightarrow> Inl f
      | Inr False \<Rightarrow> Inr False
      | Inr True \<Rightarrow>
          (case field_IsClosed Rec a of
             Inl f \<Rightarrow> Inl f
           | Inr False \<Rightarrow> Inr False
           | Inr True \<Rightarrow>
               (case field_IsClosed Buf a of
                  Inl f \<Rightarrow> Inl f
                | Inr False \<Rightarrow> Inr False
                | Inr True \<Rightarrow> Inr (closed a))))"

text \<open>\<^verbatim>\<open>Close\<close>.\<close>

definition Close :: "env \<Rightarrow> Buffer \<Rightarrow> fault + error option \<times> Buffer" where
  "Close e a =
     (case IsClosed a of
        Inl f \<Rightarrow> Inl f
      | Inr True \<Rightarrow> Inr (None, a)
      | Inr False \<Rightarrow>
          (case field_Close e Pbk a of
             Inl f \<Rightarrow> Inl f
           | Inr (Some err, a1) \<Rightarrow> Inr (Some err, a1)
           | Inr (None, a1) \<Rightarrow>
               (case field_Close e Buf a1 of
                  Inl f \<Rightarrow> Inl f
                | Inr (Some err, a2) \<Rightarrow> Inr (Some err, a2)
                | Inr (None, a2) \<Rightarrow>
                    (case field_Close e Rec a2 of
                       Inl f \<Rightarrow> Inl f
                     | Inr (Some err, a3) \<Rightarrow> Inr (Some err, a3)
                     | Inr (None, a3) \<Rightarrow>
                         Inr (None,
                              (emit DestroyCall
                                 (a3\<lparr>deviceManager := Destroy (deviceManager a3)\<rparr>))
                              \<lparr>closed := True\<rparr>)))))"

text \<open>A Buffer whose three pipeline fields are assigned, as \<^verbatim>\<open>Start\<close> leaves them.\<close>

definition started :: "Buffer \<Rightarrow> bool" where
  "started a = (pbkPipeline a \<noteq> None \<and> bufPipeline a \<noteq> None \<and> recPipeline a \<noteq> None)"

section \<open>Creation-spec annotations (package k8sutil)\<close>

text \<open>
  Of \<^verbatim>\<open>metav1.ObjectMeta\<close> only the annotations are read and written here; the
  other fields are the record's extension. A Go map that is \<^verbatim>\<open>nil\<close> is \<open>None\<close>;
  reading a key of a \<^verbatim>\<open>nil\<close> map finds nothing.
\<close>

type_synonym byte = "8 word"

record ObjectMeta =
  Annotations :: "(string \<rightharpoonup> string) option"

definition GetAnnotations :: "'a ObjectMeta_scheme \<Rightarrow> (string \<rightharpoonup> string) option" where
  "GetAnnotations meta = Annotations meta"

definition SetAnnotations ::
  "(string \<rightharpoonup> string) option \<Rightarrow> 'a ObjectMeta_scheme \<Rightarrow> 'a ObjectMeta_scheme" where
  "SetAnnotations m meta = meta\<lparr>Annotations := m\<rparr>"

definition map_index :: "(string \<rightharpoonup> string) option \<Rightarrow> string \<Rightarrow> string option" where
  "map_index m k = (case m of None \<Rightarrow> None | Some f \<Rightarrow> f k)"

text \<open>
  The library calls whose results the code does not decide: \<^verbatim>\<open>json.Marshal\<close> of
  the object, and the SHA-256 hash (\<^verbatim>\<open>Write\<close> of the bytes, then \<^verbatim>\<open>Sum\<close>).
\<close>

record 'o golib =
  json_Marshal :: "'o \<Rightarrow> error + byte list"
  hash_Write :: "byte list \<Rightarrow> error option"
  hash_Sum :: "byte list \<Rightarrow> byte list"

text \<open>\<^verbatim>\<open>fmt.Sprintf("%x", bs)\<close>: two lower-case hexadecimal digits for each byte.\<close>

definition hex_bytes :: "byte list \<Rightarrow> string" where
  "hex_bytes bs = concat (map (\<lambda>b. [digit_char (unat b div 16), digit_char (unat b mod 16)]) bs)"

text \<open>
  \<^verbatim>\<open>SetCreationSpecAnnotation\<close>. The annotation key
  \<^verbatim>\<open>v1.CreationSpecAnnotation\<close> is declared outside the sources and is a parameter.
\<close>

definition SetCreationSpecAnnotation ::
  "'o golib \<Rightarrow> string \<Rightarrow> 'a ObjectMeta_scheme \<Rightarrow> 'o \<Rightarrow> error option \<times> 'a ObjectMeta_scheme" where
  "SetCreationSpecAnnotation lib key meta obj =
     (let annotations = (case GetAnnotations meta of None \<Rightarrow> Map.empty | Some m \<Rightarrow> m)
      in case json_Marshal lib obj of
           Inl err \<Rightarrow> (Some err, meta)
         | Inr spec \<Rightarrow>
             (case hash_Write lib spec of
                Some err \<Rightarrow> (Some err, meta)
              | None \<Rightarrow>
                  (None,
                   SetAnnotations (Some (annotations(key \<mapsto> hex_bytes (hash_Sum lib spec)))) meta)))"

text \<open>\<^verbatim>\<open>CreationSpecsEqual\<close>.\<close>

definition CreationSpecsEqual ::
  "string \<Rightarrow> 'a ObjectMeta_scheme \<Rightarrow> 'b ObjectMeta_scheme \<Rightarrow> bool" where
  "CreationSpecsEqual key m1 m2 =
     (let m1ann = GetAnnotations m1; m2ann = GetAnnotations m2
      in case map_index m1ann key of
           None \<Rightarrow> False
         | Some spec1 \<Rightarrow>
             (case map_index m2ann key of
                None \<Rightarrow> False
              | Some spec2 \<Rightarrow> spec1 = spec2))"

text \<open>
  The same function with its pointers. In the program \<^verbatim>\<open>meta\<close> is a pointer to an
  \<^verbatim>\<open>ObjectMeta\<close>, a Go map is a reference to a map object that several structs can
  share, \<^verbatim>\<open>annotations[key] = ...\<close> writes into that map object in place, and
  \<^verbatim>\<open>json.Marshal(obj)\<close> reads the object as it is when the call is made. A heap
  holds the map objects and the \<^verbatim>\<open>Annotations\<close> field (\<^verbatim>\<open>nil\<close> or the address
  of a map object) of each \<^verbatim>\<open>ObjectMeta\<close>, by address; \<^verbatim>\<open>make\<close> takes the next
  free address. The library's \<^verbatim>\<open>json.Marshal\<close> is given the heap with the object.
\<close>

record heap =
  mapAt :: "nat \<Rightarrow> (string \<rightharpoonup> string)"
  metaAt :: "nat \<Rightarrow> nat option"
  nextMap :: nat

text \<open>The \<^verbatim>\<open>ObjectMeta\<close> value that a pointer refers to (\<^verbatim>\<open>*meta\<close>).\<close>

definition deref :: "heap \<Rightarrow> nat \<Rightarrow> ObjectMeta" where
  "deref h p = \<lparr>Annotations = map_option (mapAt h) (metaAt h p)\<rparr>"

text \<open>
  The first three lines of the function: the map of the metadata, or a new empty map
  when it is \<^verbatim>\<open>nil\<close>.
\<close>

definition annotationsOrMake :: "heap \<Rightarrow> nat \<Rightarrow> nat \<times> heap" where
  "annotationsOrMake h meta =
     (case metaAt h meta of
        None \<Rightarrow>
          (nextMap h,
           h\<lparr>mapAt := (mapAt h)(nextMap h := Map.empty), nextMap := Suc (nextMap h)\<rparr>)
      | Some a \<Rightarrow> (a, h))"

definition SetCreationSpecAnnotation_ptr ::
  "(heap \<times> 'o) golib \<Rightarrow> string \<Rightarrow> heap \<Rightarrow> nat \<Rightarrow> 'o \<Rightarrow> error option \<times> heap" where
  "SetCreationSpecAnnotation_ptr lib key h meta obj =
     (let (annotations, h1) = annotationsOrMake h meta
      in case json_Marshal lib (h1, obj) of
           Inl err \<Rightarrow> (Some err, h1)
         | Inr spec \<Rightarrow>
             (case hash_Write lib spec of
                Some err \<Rightarrow> (Some err, h1)
              | None \<Rightarrow>
                  (None,
                   h1\<lparr>mapAt := (mapAt h1)
                          (annotations :=
                             (mapAt h1 annotations)(key \<mapsto> hex_bytes (hash_Sum lib spec))),
                      metaAt := (metaAt h1)(meta \<mapsto> annotations)\<rparr>)))"

section \<open>Concrete hosts and Buffers\<close>

text \<open>
  A host on which no call fails and the polled file never lists a port; the Buffer
  that \<^verbatim>\<open>Start\<close> leaves on it, and that Buffer after \<^verbatim>\<open>Close\<close>; a library
  whose objects are their own JSON text and whose hash is a stand-in (the first 32 bytes
  of the input).
\<close>

definition calm_host :: env where
  "calm_host =
     \<lparr>addSinkErr = None, addSourceErr = None, setDefaultSourceErr = None,
      startErr = (\<lambda>i. None), waitErr = (\<lambda>i. None), closeErr = (\<lambda>i. None),
      pidOf = (\<lambda>i. 4711), procFile = (\<lambda>path k. Body [])\<rparr>"

definition running_buffer :: Buffer where
  "running_buffer =
     (case Start calm_host (NewBuffer [] ''u1'') CodecVorbis of
        Inr (r, a) \<Rightarrow> a
      | Inl f \<Rightarrow> NewBuffer [] ''u1'')"

definition closed_buffer :: Buffer where
  "closed_buffer =
     (case Close calm_host running_buffer of
        Inr (r, a) \<Rightarrow> a
      | Inl f \<Rightarrow> running_buffer)"

definition demo_lib :: "byte list golib" where
  "demo_lib =
     \<lparr>json_Marshal = (\<lambda>bs. Inr bs), hash_Write = (\<lambda>bs. None),
      hash_Sum = (\<lambda>bs. take 32 bs)\<rparr>"

text \<open>
  A heap with no map and every \<^verbatim>\<open>Annotations\<close> field \<^verbatim>\<open>nil\<close>, and a library
  for objects that are given by the address of their own \<^verbatim>\<open>ObjectMeta\<close>: the
  stand-in for \<^verbatim>\<open>json.Marshal\<close> renders the value that the object's metadata holds
  under the given annotation key, between braces.
\<close>

definition empty_heap :: heap where
  "empty_heap = \<lparr>mapAt = (\<lambda>a. Map.empty), metaAt = (\<lambda>p. None), nextMap = 0\<rparr>"

definition meta_lib :: "string \<Rightarrow> (heap \<times> nat) golib" where
  "meta_lib key =
     \<lparr>json_Marshal =
        (\<lambda>(h, obj). Inr (case map_index (GetAnnotations (deref h obj)) key of
                            None \<Rightarrow> [123, 125]
                          | Some v \<Rightarrow> 123 # map of_char v @ [125])),
      hash_Write = (\<lambda>bs. None),
      hash_Sum = (\<lambda>bs. take 32 bs)\<rparr>"

text \<open>
  The heap after \<^verbatim>\<open>SetCreationSpecAnnotation\<close> has been called with the object
  \<open>obj\<close> on the metadata at address 1, and then with the same object on the metadata
  at address 2.
\<close>

definition annotated_once :: "nat \<Rightarrow> heap" where
  "annotated_once obj =
     snd (SetCreationSpecAnnotation_ptr (meta_lib ''kvdi.io/creation-spec'')
            ''kvdi.io/creation-spec'' empty_heap 1 obj)"

definition annotated_twice :: "nat \<Rightarrow> heap" where
  "annotated_twice obj =
     snd (SetCreationSpecAnnotation_ptr (meta_lib ''kvdi.io/creation-spec'')
            ''kvdi.io/creation-spec'' (annotated_once obj) 2 obj)"

section \<open>Facts about the string functions, the hosts and \<^verbatim>\<open>Start\<close>\<close>

lemma pollLoop_polls_on:
  assumes "tries \<noteq> retries"
    and "\<And>j. \<exists>body. file j = Body body \<and> \<not> Contains body portHex"
  shows "pollLoop fuel file portHex limitErr tries retries k = None"
proof (induction fuel arbitrary: k)
  case 0
  show ?case by simp
next
  case (Suc fuel)
  obtain body where b: "file k = Body body" "\<not> Contains body portHex"
    using assms(2) by blast
  show ?case using b assms(1) Suc.IH by simp
qed

lemma port_9004_hex: "ToUpper (FormatInt 9004 16) = ''232C''"
  by (simp add: FormatInt_def ToUpper_def upper_char_def digit_char_def)

lemma seconds_1: "seconds 1 = 1000000000"
  by (simp add: seconds_def)

lemma waitForProcPort_polls_on:
  assumes "retries \<noteq> 0" and "0 < seconds interval"
    and "\<And>j. \<exists>body. procFile e (''/proc/'' @ FormatInt pid 10 @ ''/net/'' @ proto) j = Body body
            \<and> \<not> Contains body (ToUpper (FormatInt port 16))"
  shows "waitForProcPort fuel e proto pid port retries interval = None"
proof -
  have "pollLoop fuel (procFile e (''/proc/'' @ FormatInt pid 10 @ ''/net/'' @ proto))
          (ToUpper (FormatInt port 16)) lim 0 retries 0 = None" for lim
    by (rule pollLoop_polls_on) (use assms in auto)
  then show ?thesis using assms(2) by (simp add: waitForProcPort_def Let_def)
qed



lemma setupDevices_frame:
  "pbkPipeline (snd (setupDevices e a)) = pbkPipeline a"
  "bufPipeline (snd (setupDevices e a)) = bufPipeline a"
  "recPipeline (snd (setupDevices e a)) = recPipeline a"
  "closed (snd (setupDevices e a)) = closed a"
  by (simp_all add: setupDevices_def AddSink_def AddSource_def SetDefaultSource_def
      emit_def Let_def split: option.splits)

lemma setupDevices_ok:
  assumes "addSinkErr e = None" "addSourceErr e = None" "setDefaultSourceErr e = None"
  shows "fst (setupDevices e a) = None"
  using assms
  by (simp add: setupDevices_def AddSink_def AddSource_def SetDefaultSource_def Let_def)

lemma buildPlaybackPipeline_frame:
  "closed (snd (buildPlaybackPipeline a codec)) = closed a"
  "bufPipeline (snd (buildPlaybackPipeline a codec)) = bufPipeline a"
  "recPipeline (snd (buildPlaybackPipeline a codec)) = recPipeline a"
  "pbkPipeline (snd (buildPlaybackPipeline a codec)) = pbkPipeline a"
  by (simp_all add: buildPlaybackPipeline_def emit_def Let_def)

lemma field_Start_started:
  assumes "started a"
  shows "\<exists>a'. field_Start e i a = Inr (startErr e i, a') \<and> closed a' = closed a \<and> started a'"
  using assms
  by (cases i; cases "startErr e i")
     (auto simp: field_Start_def pipeline_Start_def emit_def started_def)

lemma Start_outcome:
  assumes "fst (setupDevices e a) = None"
  shows "\<exists>a'. Start e a codec =
             Inr (if startErr e Pbk = None then startErr e Buf else startErr e Pbk, a')
           \<and> started a' \<and> closed a' = closed a"
proof -
  obtain a1 where s: "setupDevices e a = (None, a1)"
    using assms by (cases "setupDevices e a") auto
  have c1: "closed a1 = closed a" using setupDevices_frame(4) [of e a] s by simp
  obtain pbk a2 where b: "buildPlaybackPipeline a1 codec = (pbk, a2)"
    by (cases "buildPlaybackPipeline a1 codec") auto
  have c2: "closed a2 = closed a1" using buildPlaybackPipeline_frame(1) [of a1 codec] b by simp
  obtain bufP recP where br:
    "buildRecordingPipelines (a2\<lparr>pbkPipeline := Some pbk\<rparr>) codec = (bufP, recP)"
    by (cases "buildRecordingPipelines (a2\<lparr>pbkPipeline := Some pbk\<rparr>) codec") auto
  define a4 where
    "a4 = a2\<lparr>pbkPipeline := Some pbk, bufPipeline := Some bufP, recPipeline := Some recP\<rparr>"
  have st4: "started a4" by (simp add: a4_def started_def)
  have c4: "closed a4 = closed a" by (simp add: a4_def c1 c2)
  have unfold: "Start e a codec =
      (case field_Start e Pbk a4 of
         Inl f \<Rightarrow> Inl f
       | Inr (Some err, a5) \<Rightarrow> Inr (Some err, a5)
       | Inr (None, a5) \<Rightarrow>
           (case field_Start e Buf a5 of
              Inl f \<Rightarrow> Inl f
            | Inr (Some err, a6) \<Rightarrow> Inr (Some err, a6)
            | Inr (None, a6) \<Rightarrow> Inr (None, emit GoReadinessTask a6)))"
    by (simp add: Start_def s b br a4_def Let_def)
  obtain a5 where a5: "field_Start e Pbk a4 = Inr (startErr e Pbk, a5)"
    "closed a5 = closed a4" "started a5"
    using field_Start_started [OF st4, of e Pbk] by blast
  obtain a6 where a6: "field_Start e Buf a5 = Inr (startErr e Buf, a6)"
    "closed a6 = closed a5" "started a6"
    using field_Start_started [OF a5(3), of e Buf] by blast
  have emit_keeps: "started (emit GoReadinessTask a6)"
    "closed (emit GoReadinessTask a6) = closed a"
    using a6(2,3) a5(2) c4 by (simp_all add: emit_def started_def)
  show ?thesis
  proof (cases "startErr e Pbk")
    case (Some err)
    then show ?thesis using unfold a5 c4 by simp
  next
    case None
    note pbk_ok = None
    show ?thesis
    proof (cases "startErr e Buf")
      case (Some err)
      then show ?thesis using unfold a5 a6 c4 pbk_ok by simp
    next
      case None
      then show ?thesis using unfold a5 a6 emit_keeps pbk_ok by simp
    qed
  qed
qed

lemma calm_host_simps:
  "addSinkErr calm_host = None" "addSourceErr calm_host = None"
  "setDefaultSourceErr calm_host = None" "startErr calm_host i = None"
  "waitErr calm_host i = None" "closeErr calm_host i = None" "pidOf calm_host i = 4711"
  "procFile calm_host path k = Body []"
  by (simp_all add: calm_host_def)

lemma running_buffer_facts: "started running_buffer \<and> \<not> closed running_buffer"
proof -
  have "fst (setupDevices calm_host (NewBuffer [] ''u1'')) = None"
    by (rule setupDevices_ok) (simp_all add: calm_host_simps)
  from Start_outcome [OF this, of CodecVorbis]
  obtain a' where "Start calm_host (NewBuffer [] ''u1'') CodecVorbis = Inr (None, a')"
    "started a'" "closed a' = closed (NewBuffer [] ''u1'')"
    by (auto simp: calm_host_simps)
  then show ?thesis by (simp add: running_buffer_def NewBuffer_def)
qed

lemma running_buffer_started: "started running_buffer"
  using running_buffer_facts by simp

section \<open>The readiness poll\<close>

text \<open>
  Claim C1, at its own input. On a host where the polled file is read without error
  and never lists port 9004 (\<^verbatim>\<open>232C\<close>), \<^verbatim>\<open>waitForProcPort\<close> with 5 retries
  at 1 second has not returned after any number of ticks: the comparison of
  \<^verbatim>\<open>tries\<close> with \<^verbatim>\<open>retries\<close> is of 0 with 5 at every tick, since
  \<^verbatim>\<open>tries\<close> is never incremented. So no retry-limit error is returned, and the
  task launched by \<^verbatim>\<open>Start\<close> never ends. Only with \<^verbatim>\<open>retries = 0\<close> is the
  limit reached, at the first check.
\<close>

theorem waitForProcPort_retry_limit_never_reached:
  "waitForProcPort fuel calm_host ''tcp'' 4711 9004 5 1 = None
   \<and> readinessTask fuel calm_host running_buffer = None
   \<and> waitForProcPort (Suc fuel) calm_host ''tcp'' 4711 9004 0 1 =
       Some (Inr (Some (GoError ''Hit retry limit waiting for port tcp/9004 on PID 4711''), 1))"
proof -
  have poll: "waitForProcPort fuel calm_host ''tcp'' 4711 9004 5 1 = None"
    by (rule waitForProcPort_polls_on) (simp_all add: seconds_1 calm_host_simps port_9004_hex)
  obtain q where q: "bufPipeline running_buffer = Some q"
    using running_buffer_started by (auto simp: started_def)
  have task: "readinessTask fuel calm_host running_buffer = None"
    by (simp add: readinessTask_def q calm_host_simps poll)
  have dec: "FormatInt 9004 10 = ''9004''" "FormatInt 4711 10 = ''4711''"
    by (simp_all add: FormatInt_def digit_char_def)
  have limit: "waitForProcPort (Suc fuel) calm_host ''tcp'' 4711 9004 0 1 =
       Some (Inr (Some (GoError ''Hit retry limit waiting for port tcp/9004 on PID 4711''), 1))"
    by (simp add: waitForProcPort_def Let_def seconds_1 port_9004_hex dec calm_host_simps)
  show ?thesis using poll task limit by simp
qed

section \<open>The playback stage sequence\<close>

lemmas builder_defs =
  NewPipeline_def WithStage_def WithPulseSrc_def WithVorbisEncode_def WithOggMux_def
  WithCutter_def WithOpusEncode_def WithWebmMux_def WithLameEncode_def WithFdSink_def

lemmas codec_defs = CodecOpus_def CodecVorbis_def CodecMP3_def CodecRaw_def

text \<open>
  Claim C2. For every codec value, the playback pipeline built by
  \<^verbatim>\<open>buildPlaybackPipeline\<close> has the stages: pulse source from the monitor
  \<^verbatim>\<open>kvdi.monitor\<close> with the Buffer's channels and sample rate; then vorbis-encode
  and ogg-mux for \<^verbatim>\<open>"vorbis"\<close>, lame-encode alone for \<^verbatim>\<open>"mp3"\<close>, and cutter,
  opus-encode and webm-mux for \<^verbatim>\<open>"opus"\<close> and for every other value; then the
  sink to file descriptor 1. A codec other than the three logs exactly one line, the
  three log nothing, and in particular the declared \<^verbatim>\<open>"raw"\<close> takes the
  cutter/opus/webm sequence with one log line. The function has no error result.
\<close>

theorem buildPlaybackPipeline_stages:
  "stages (fst (buildPlaybackPipeline a codec)) =
     [PulseSrc (userID a) ''kvdi.monitor'' (channels a) (sampleRate a)] @
     (if codec = ''vorbis'' then [VorbisEncode, OggMux]
      else if codec = ''mp3'' then [LameEncode]
      else [Cutter, OpusEncode, WebmMux]) @
     [FdSink 1]
   \<and> history (snd (buildPlaybackPipeline a codec)) =
       history a @
       (if codec \<in> {''vorbis'', ''opus'', ''mp3''} then []
        else [LogInfo (logger a)
                (''Invalid codec for gst pipeline '' @ codec @ '', defaulting to opus/webm'')])
   \<and> stages (fst (buildPlaybackPipeline a CodecRaw)) =
       [PulseSrc (userID a) ''kvdi.monitor'' (channels a) (sampleRate a),
        Cutter, OpusEncode, WebmMux, FdSink 1]
   \<and> length (history (snd (buildPlaybackPipeline a CodecRaw))) = Suc (length (history a))"
  by (simp add: buildPlaybackPipeline_def builder_defs codec_defs emit_def Let_def)

section \<open>Facts about \<^verbatim>\<open>IsClosed\<close>, \<^verbatim>\<open>Close\<close>, \<^verbatim>\<open>Wait\<close> and \<^verbatim>\<open>setupDevices\<close>\<close>

lemma started_fields:
  assumes "started a"
  obtains p q r where "pbkPipeline a = Some p" "bufPipeline a = Some q" "recPipeline a = Some r"
  using assms by (auto simp: started_def)

lemma IsClosed_started:
  assumes "pbkPipeline a = Some p" "recPipeline a = Some r" "bufPipeline a = Some q"
  shows "IsClosed a = Inr (pipeline_IsClosed p \<and> pipeline_IsClosed r \<and> pipeline_IsClosed q \<and> closed a)"
  using assms by (simp add: IsClosed_def field_IsClosed_def split: bool.splits)

lemma IsClosed_True_fields:
  assumes "started a" and "IsClosed a = Inr True"
  shows "\<exists>p q r. pbkPipeline a = Some p \<and> bufPipeline a = Some q \<and> recPipeline a = Some r
           \<and> pipeline_IsClosed p \<and> pipeline_IsClosed q \<and> pipeline_IsClosed r \<and> closed a"
proof -
  obtain p q r where f: "pbkPipeline a = Some p" "bufPipeline a = Some q" "recPipeline a = Some r"
    using assms(1) by (rule started_fields)
  from IsClosed_started [OF f(1) f(3) f(2)] assms(2) f show ?thesis by simp
qed


lemma Close_closed:
  assumes "IsClosed a = Inr True"
  shows "Close e a = Inr (None, a)"
  using assms by (simp add: Close_def)

lemma Close_open:
  assumes "pbkPipeline a = Some p" "bufPipeline a = Some q" "recPipeline a = Some r"
    and "IsClosed a = Inr False"
  shows "Close e a =
     (case closeErr e Pbk of
        Some err \<Rightarrow> Inr (Some err, a\<lparr>history := history a @ [PipelineClose Pbk]\<rparr>)
      | None \<Rightarrow>
          (case closeErr e Buf of
             Some err \<Rightarrow>
               Inr (Some err,
                    a\<lparr>pbkPipeline := Some (p\<lparr>p_closed := True\<rparr>),
                      history := history a @ [PipelineClose Pbk, PipelineClose Buf]\<rparr>)
           | None \<Rightarrow>
               (case closeErr e Rec of
                  Some err \<Rightarrow>
                    Inr (Some err,
                         a\<lparr>pbkPipeline := Some (p\<lparr>p_closed := True\<rparr>),
                           bufPipeline := Some (q\<lparr>p_closed := True\<rparr>),
                           history := history a @
                             [PipelineClose Pbk, PipelineClose Buf, PipelineClose Rec]\<rparr>)
                | None \<Rightarrow>
                    Inr (None,
                         a\<lparr>deviceManager := Destroy (deviceManager a),
                           pbkPipeline := Some (p\<lparr>p_closed := True\<rparr>),
                           bufPipeline := Some (q\<lparr>p_closed := True\<rparr>),
                           recPipeline := Some (r\<lparr>p_closed := True\<rparr>),
                           closed := True,
                           history := history a @
                             [PipelineClose Pbk, PipelineClose Buf, PipelineClose Rec,
                              DestroyCall]\<rparr>))))"
  using assms
  by (simp add: Close_def field_Close_def pipeline_Close_def emit_def split: option.splits)

lemma Close_all_ok:
  assumes "started a" and "IsClosed a = Inr False"
    and "closeErr e Pbk = None" "closeErr e Buf = None" "closeErr e Rec = None"
  shows "\<exists>a'. Close e a = Inr (None, a') \<and> IsClosed a' = Inr True \<and> started a'
          \<and> history a' = history a @
               [PipelineClose Pbk, PipelineClose Buf, PipelineClose Rec, DestroyCall]"
proof -
  obtain p q r where f: "pbkPipeline a = Some p" "bufPipeline a = Some q" "recPipeline a = Some r"
    using assms(1) by (rule started_fields)
  show ?thesis
    using Close_open [OF f assms(2), of e] assms(3-5)
    by (simp add: IsClosed_def field_IsClosed_def pipeline_IsClosed_def started_def)
qed

lemma running_buffer_open: "IsClosed running_buffer = Inr False"
proof -
  obtain p q r where f: "pbkPipeline running_buffer = Some p"
    "bufPipeline running_buffer = Some q" "recPipeline running_buffer = Some r"
    using running_buffer_started by (rule started_fields)
  show ?thesis using IsClosed_started [OF f(1) f(3) f(2)] running_buffer_facts by simp
qed

lemma closed_buffer_facts:
  "Close calm_host running_buffer = Inr (None, closed_buffer)"
  "IsClosed closed_buffer = Inr True" "started closed_buffer"
proof -
  obtain a' where a': "Close calm_host running_buffer = Inr (None, a')"
    "IsClosed a' = Inr True" "started a'"
    using Close_all_ok [OF running_buffer_started running_buffer_open, of calm_host]
    by (auto simp: calm_host_simps)
  then have "closed_buffer = a'" by (simp add: closed_buffer_def)
  with a' show "Close calm_host running_buffer = Inr (None, closed_buffer)"
    "IsClosed closed_buffer = Inr True" "started closed_buffer" by simp_all
qed

lemma Wait_started:
  assumes "started a"
  shows "Wait e a =
     Inr (case List.map_filter (waitErr e) [Pbk, Buf, Rec] of
            [] \<Rightarrow> None
          | err # errs \<Rightarrow> Some (GoError (Join (map Error_msg (err # errs)) '' : '')),
          a\<lparr>history := history a @ [PipelineWait Pbk, PipelineWait Buf, PipelineWait Rec]\<rparr>)"
proof -
  obtain p q r where f: "pbkPipeline a = Some p" "bufPipeline a = Some q" "recPipeline a = Some r"
    using assms by (rule started_fields)
  show ?thesis
    by (cases "waitErr e Pbk"; cases "waitErr e Buf"; cases "waitErr e Rec")
       (simp_all add: Wait_def wait_step_def field_Wait_def pipeline_Wait_def emit_def f
          List.map_filter_simps)
qed

lemma setupDevices_fails:
  assumes "addSinkErr e = Some err
           \<or> (addSinkErr e = None \<and> addSourceErr e = Some err)
           \<or> (addSinkErr e = None \<and> addSourceErr e = None \<and> setDefaultSourceErr e = Some err)"
  shows "\<exists>a' evs. setupDevices e a = (Some err, a')
          \<and> pbkPipeline a' = pbkPipeline a \<and> bufPipeline a' = bufPipeline a
          \<and> recPipeline a' = recPipeline a
          \<and> history a' = history a @ evs
          \<and> set evs \<subseteq> {AddSinkCall ''kvdi'' ''kvdi-playback'',
                AddSourceCall ''virtmic'' ''kvdi-microphone''
                  (''/run/user/'' @ userID a @ ''/pulse/mic.fifo'') ''s16le'' 1 16000,
                SetDefaultSourceCall ''virtmic''}"
  using assms
  by (auto simp: setupDevices_def AddSink_def AddSource_def SetDefaultSource_def emit_def Let_def)


section \<open>Closing a Buffer\<close>

text \<open>
  Claim C3. On a Buffer whose three pipelines are assigned (\<^verbatim>\<open>Start\<close> has
  succeeded) and that is not yet closed (\<^verbatim>\<open>IsClosed\<close> is false, so the guard of
  \<^verbatim>\<open>Close\<close> lets the call through), \<^verbatim>\<open>Close\<close> closes the playback, then
  the network-buffer, then the recorder pipeline. The first close that fails ends the
  call with that error: the pipelines after it are not closed, \<^verbatim>\<open>Destroy\<close> is
  not called, and the closed flag and the device manager stay as they were. Only when
  all three closes succeed is \<^verbatim>\<open>Destroy\<close> called, after the three closes, and
  the closed flag set.
\<close>

theorem Close_order_short_circuit:
  assumes "started a" and "IsClosed a = Inr False"
  shows
    "(closeErr e Pbk = Some err \<longrightarrow>
        (\<exists>a'. Close e a = Inr (Some err, a')
           \<and> history a' = history a @ [PipelineClose Pbk]
           \<and> closed a' = closed a \<and> deviceManager a' = deviceManager a
           \<and> bufPipeline a' = bufPipeline a \<and> recPipeline a' = recPipeline a))
   \<and> (closeErr e Pbk = None \<and> closeErr e Buf = Some err \<longrightarrow>
        (\<exists>a'. Close e a = Inr (Some err, a')
           \<and> history a' = history a @ [PipelineClose Pbk, PipelineClose Buf]
           \<and> closed a' = closed a \<and> deviceManager a' = deviceManager a
           \<and> recPipeline a' = recPipeline a))
   \<and> (closeErr e Pbk = None \<and> closeErr e Buf = None \<and> closeErr e Rec = Some err \<longrightarrow>
        (\<exists>a'. Close e a = Inr (Some err, a')
           \<and> history a' = history a @
                [PipelineClose Pbk, PipelineClose Buf, PipelineClose Rec]
           \<and> closed a' = closed a \<and> deviceManager a' = deviceManager a))
   \<and> (closeErr e Pbk = None \<and> closeErr e Buf = None \<and> closeErr e Rec = None \<longrightarrow>
        (\<exists>a'. Close e a = Inr (None, a')
           \<and> history a' = history a @
                [PipelineClose Pbk, PipelineClose Buf, PipelineClose Rec, DestroyCall]
           \<and> closed a' \<and> deviceManager a' = Destroy (deviceManager a)))"
proof -
  obtain p q r where f: "pbkPipeline a = Some p" "bufPipeline a = Some q" "recPipeline a = Some r"
    using assms(1) by (rule started_fields)
  note c = Close_open [OF f assms(2), of e]
  have 1: "closeErr e Pbk = Some err \<longrightarrow>
        (\<exists>a'. Close e a = Inr (Some err, a')
           \<and> history a' = history a @ [PipelineClose Pbk]
           \<and> closed a' = closed a \<and> deviceManager a' = deviceManager a
           \<and> bufPipeline a' = bufPipeline a \<and> recPipeline a' = recPipeline a)"
    using c by simp
  have 2: "closeErr e Pbk = None \<and> closeErr e Buf = Some err \<longrightarrow>
        (\<exists>a'. Close e a = Inr (Some err, a')
           \<and> history a' = history a @ [PipelineClose Pbk, PipelineClose Buf]
           \<and> closed a' = closed a \<and> deviceManager a' = deviceManager a
           \<and> recPipeline a' = recPipeline a)"
    using c by simp
  have 3: "closeErr e Pbk = None \<and> closeErr e Buf = None \<and> closeErr e Rec = Some err \<longrightarrow>
        (\<exists>a'. Close e a = Inr (Some err, a')
           \<and> history a' = history a @
                [PipelineClose Pbk, PipelineClose Buf, PipelineClose Rec]
           \<and> closed a' = closed a \<and> deviceManager a' = deviceManager a)"
    using c by simp
  have 4: "closeErr e Pbk = None \<and> closeErr e Buf = None \<and> closeErr e Rec = None \<longrightarrow>
        (\<exists>a'. Close e a = Inr (None, a')
           \<and> history a' = history a @
                [PipelineClose Pbk, PipelineClose Buf, PipelineClose Rec, DestroyCall]
           \<and> closed a' \<and> deviceManager a' = Destroy (deviceManager a))"
    using c by simp
  from 1 2 3 4 show ?thesis by blast
qed

theorem Close_order_short_circuit_witness:
  "started running_buffer \<and> IsClosed running_buffer = Inr False
   \<and> (\<exists>a'. Close (calm_host\<lparr>closeErr := (\<lambda>i. if i = Buf then Some (GoError ''kill failed'') else None)\<rparr>)
              running_buffer = Inr (Some (GoError ''kill failed''), a')
          \<and> history a' = history running_buffer @ [PipelineClose Pbk, PipelineClose Buf]
          \<and> closed a' = closed running_buffer
          \<and> deviceManager a' = deviceManager running_buffer
          \<and> recPipeline a' = recPipeline running_buffer)"
  using Close_order_short_circuit [OF running_buffer_started running_buffer_open,
      of "calm_host\<lparr>closeErr := (\<lambda>i. if i = Buf then Some (GoError ''kill failed'') else None)\<rparr>"
         "GoError ''kill failed''"]
    running_buffer_started running_buffer_open
  by simp

text \<open>
  Claim C4. On a Buffer whose three pipelines report closed and whose closed flag is
  set, \<^verbatim>\<open>Close\<close> returns no error and leaves the Buffer as it is: the history
  gains no pipeline close and no \<^verbatim>\<open>Destroy\<close>.
\<close>

theorem Close_twice_no_effect:
  assumes "pbkPipeline a = Some p" "bufPipeline a = Some q" "recPipeline a = Some r"
    and "pipeline_IsClosed p" "pipeline_IsClosed q" "pipeline_IsClosed r" "closed a"
  shows "Close e a = Inr (None, a)"
  using assms IsClosed_started [of a p r q] by (simp add: Close_closed)

theorem Close_twice_no_effect_witness:
  "IsClosed closed_buffer = Inr True
   \<and> Close calm_host running_buffer = Inr (None, closed_buffer)
   \<and> Close calm_host closed_buffer = Inr (None, closed_buffer)"
proof -
  obtain p q r where "pbkPipeline closed_buffer = Some p" "bufPipeline closed_buffer = Some q"
    "recPipeline closed_buffer = Some r" "pipeline_IsClosed p" "pipeline_IsClosed q"
    "pipeline_IsClosed r" "closed closed_buffer"
    using IsClosed_True_fields [OF closed_buffer_facts(3) closed_buffer_facts(2)] by blast
  then have "Close calm_host closed_buffer = Inr (None, closed_buffer)"
    by (rule Close_twice_no_effect)
  then show ?thesis using closed_buffer_facts by simp
qed




text \<open>
  Claim C8. On a Buffer whose three pipelines are assigned, \<^verbatim>\<open>IsClosed\<close> is
  true exactly when the playback, the recorder and the network-buffer pipeline report
  closed and the Buffer's closed flag is set, and false otherwise.
\<close>

theorem IsClosed_iff_all_four:
  assumes "pbkPipeline a = Some p" "recPipeline a = Some r" "bufPipeline a = Some q"
  shows "IsClosed a =
           Inr (pipeline_IsClosed p \<and> pipeline_IsClosed r \<and> pipeline_IsClosed q \<and> closed a)"
  using assms by (rule IsClosed_started)

theorem IsClosed_iff_all_four_witness:
  "started running_buffer \<and> IsClosed running_buffer = Inr False
   \<and> started closed_buffer \<and> IsClosed closed_buffer = Inr True"
proof -
  obtain p q r where f: "pbkPipeline running_buffer = Some p"
    "bufPipeline running_buffer = Some q" "recPipeline running_buffer = Some r"
    using running_buffer_started by (rule started_fields)
  have "IsClosed running_buffer =
          Inr (pipeline_IsClosed p \<and> pipeline_IsClosed r \<and> pipeline_IsClosed q
               \<and> closed running_buffer)"
    using f(1) f(3) f(2) by (rule IsClosed_iff_all_four)
  then have o: "IsClosed running_buffer = Inr False"
    using running_buffer_facts by simp
  obtain p' q' r' where g: "pbkPipeline closed_buffer = Some p'"
    "bufPipeline closed_buffer = Some q'" "recPipeline closed_buffer = Some r'"
    "pipeline_IsClosed p'" "pipeline_IsClosed q'" "pipeline_IsClosed r'" "closed closed_buffer"
    using IsClosed_True_fields [OF closed_buffer_facts(3) closed_buffer_facts(2)] by blast
  have "IsClosed closed_buffer =
          Inr (pipeline_IsClosed p' \<and> pipeline_IsClosed r' \<and> pipeline_IsClosed q'
               \<and> closed closed_buffer)"
    using g(1) g(3) g(2) by (rule IsClosed_iff_all_four)
  then have c: "IsClosed closed_buffer = Inr True" using g by simp
  show ?thesis using o c running_buffer_started closed_buffer_facts(3) by simp
qed

section \<open>Waiting for the pipelines\<close>

text \<open>
  Claim C6. On a Buffer whose three pipelines are assigned, \<^verbatim>\<open>Wait\<close> waits for
  the playback, then the network-buffer, then the recorder pipeline. When at least one
  of them exits with an error, it returns one error whose message is the messages of
  the failing pipelines, in that order, joined by \<^verbatim>\<open>" : "\<close>; when none does, it
  returns no error.
\<close>

theorem Wait_joins_errors:
  assumes "started a"
  shows "Wait e a =
     Inr (case List.map_filter (waitErr e) [Pbk, Buf, Rec] of
            [] \<Rightarrow> None
          | err # errs \<Rightarrow> Some (GoError (Join (map Error_msg (err # errs)) '' : '')),
          a\<lparr>history := history a @ [PipelineWait Pbk, PipelineWait Buf, PipelineWait Rec]\<rparr>)"
  using assms by (rule Wait_started)

theorem Wait_joins_errors_witness:
  "started running_buffer
   \<and> Wait (calm_host\<lparr>waitErr := (\<lambda>i. Some (GoError (case i of Pbk \<Rightarrow> ''exit 1'' | Buf \<Rightarrow> ''exit 2'' | Rec \<Rightarrow> ''exit 3'')))\<rparr>)
        running_buffer =
       Inr (Some (GoError ''exit 1 : exit 2 : exit 3''),
            running_buffer\<lparr>history := history running_buffer @
               [PipelineWait Pbk, PipelineWait Buf, PipelineWait Rec]\<rparr>)
   \<and> Wait (calm_host\<lparr>waitErr := (\<lambda>i. if i = Buf then Some (GoError ''exit 2'') else None)\<rparr>)
        running_buffer =
       Inr (Some (GoError ''exit 2''),
            running_buffer\<lparr>history := history running_buffer @
               [PipelineWait Pbk, PipelineWait Buf, PipelineWait Rec]\<rparr>)
   \<and> Wait calm_host running_buffer =
       Inr (None,
            running_buffer\<lparr>history := history running_buffer @
               [PipelineWait Pbk, PipelineWait Buf, PipelineWait Rec]\<rparr>)"
  using Wait_joins_errors [OF running_buffer_started,
      of "calm_host\<lparr>waitErr := (\<lambda>i. Some (GoError (case i of Pbk \<Rightarrow> ''exit 1'' | Buf \<Rightarrow> ''exit 2'' | Rec \<Rightarrow> ''exit 3'')))\<rparr>"]
    Wait_joins_errors [OF running_buffer_started,
      of "calm_host\<lparr>waitErr := (\<lambda>i. if i = Buf then Some (GoError ''exit 2'') else None)\<rparr>"]
    Wait_joins_errors [OF running_buffer_started, of calm_host]
    running_buffer_started
  by (simp add: List.map_filter_simps calm_host_simps)

section \<open>Device provisioning in \<^verbatim>\<open>Start\<close>\<close>

text \<open>
  Claim C7. When a provisioning step fails (\<^verbatim>\<open>AddSink\<close> of
  \<^verbatim>\<open>"kvdi"\<close>/\<^verbatim>\<open>"kvdi-playback"\<close>; or, after it, \<^verbatim>\<open>AddSource\<close> of the
  FIFO-backed source with \<^verbatim>\<open>s16le\<close>, 1 channel, 16000 Hz; or, after both,
  \<^verbatim>\<open>SetDefaultSource\<close>), \<^verbatim>\<open>Start\<close> returns that error. The three pipeline
  fields are as before the call (unset on a new Buffer), and the only calls made are
  provisioning calls: no pipeline is started and the readiness task is not launched.
\<close>

theorem Start_provisioning_failure:
  assumes "addSinkErr e = Some err
           \<or> (addSinkErr e = None \<and> addSourceErr e = Some err)
           \<or> (addSinkErr e = None \<and> addSourceErr e = None \<and> setDefaultSourceErr e = Some err)"
  shows "\<exists>a' evs. Start e a codec = Inr (Some err, a')
          \<and> pbkPipeline a' = pbkPipeline a \<and> bufPipeline a' = bufPipeline a
          \<and> recPipeline a' = recPipeline a
          \<and> history a' = history a @ evs
          \<and> set evs \<subseteq> {AddSinkCall ''kvdi'' ''kvdi-playback'',
                AddSourceCall ''virtmic'' ''kvdi-microphone''
                  (''/run/user/'' @ userID a @ ''/pulse/mic.fifo'') ''s16le'' 1 16000,
                SetDefaultSourceCall ''virtmic''}"
proof -
  obtain a' evs where s: "setupDevices e a = (Some err, a')"
    and rest: "pbkPipeline a' = pbkPipeline a" "bufPipeline a' = bufPipeline a"
      "recPipeline a' = recPipeline a" "history a' = history a @ evs"
      "set evs \<subseteq> {AddSinkCall ''kvdi'' ''kvdi-playback'',
                AddSourceCall ''virtmic'' ''kvdi-microphone''
                  (''/run/user/'' @ userID a @ ''/pulse/mic.fifo'') ''s16le'' 1 16000,
                SetDefaultSourceCall ''virtmic''}"
    using setupDevices_fails [OF assms, of a] by blast
  have "Start e a codec = Inr (Some err, a')" by (simp add: Start_def s)
  with rest show ?thesis by blast
qed

theorem Start_provisioning_failure_witness:
  "(\<exists>a'. Start (calm_host\<lparr>addSourceErr := Some (GoError ''module load failed'')\<rparr>)
             (NewBuffer [] ''u1'') CodecOpus = Inr (Some (GoError ''module load failed''), a')
        \<and> pbkPipeline a' = None \<and> bufPipeline a' = None \<and> recPipeline a' = None
        \<and> (\<forall>i. PipelineStart i \<notin> set (history a')))"
proof -
  let ?e = "calm_host\<lparr>addSourceErr := Some (GoError ''module load failed'')\<rparr>"
  have h: "addSinkErr ?e = Some (GoError ''module load failed'')
           \<or> (addSinkErr ?e = None \<and> addSourceErr ?e = Some (GoError ''module load failed''))
           \<or> (addSinkErr ?e = None \<and> addSourceErr ?e = None
               \<and> setDefaultSourceErr ?e = Some (GoError ''module load failed''))"
    by (simp add: calm_host_simps)
  from Start_provisioning_failure [OF h, of "NewBuffer [] ''u1''" CodecOpus]
  show ?thesis by (auto simp: NewBuffer_def)
qed

section \<open>Creation-spec annotations\<close>

text \<open>
  Claim C9. \<^verbatim>\<open>SetCreationSpecAnnotation\<close> leaves every annotation key other than
  the creation-spec key as it was, and leaves the other fields of the metadata alone,
  whether it returns an error or not. When the object marshals and the hash accepts the
  bytes, it succeeds also on metadata whose annotation map is \<^verbatim>\<open>nil\<close>: the result
  is a map that holds the creation-spec key alone, with the hexadecimal digest.
\<close>

theorem SetCreationSpecAnnotation_frame:
  "(k \<noteq> key \<longrightarrow>
      map_index (GetAnnotations (snd (SetCreationSpecAnnotation lib key meta obj))) k =
      map_index (GetAnnotations meta) k)
   \<and> ObjectMeta.more (snd (SetCreationSpecAnnotation lib key meta obj)) = ObjectMeta.more meta
   \<and> (json_Marshal lib obj = Inr spec \<and> hash_Write lib spec = None
        \<and> GetAnnotations meta = None \<longrightarrow>
        SetCreationSpecAnnotation lib key meta obj =
          (None, SetAnnotations (Some [key \<mapsto> hex_bytes (hash_Sum lib spec)]) meta))"
  by (auto simp: SetCreationSpecAnnotation_def GetAnnotations_def SetAnnotations_def
      map_index_def split: sum.splits option.splits)

theorem SetCreationSpecAnnotation_frame_witness:
  "''team'' \<noteq> ''kvdi.io/creation-spec''
   \<and> map_index (GetAnnotations (snd (SetCreationSpecAnnotation demo_lib ''kvdi.io/creation-spec''
        \<lparr>Annotations = Some [''team'' \<mapsto> ''vdi'', ''kvdi.io/creation-spec'' \<mapsto> ''0000'']\<rparr>
        [123, 125]))) ''team'' = Some ''vdi''
   \<and> json_Marshal demo_lib [123, 125] = Inr [123, 125]
   \<and> hash_Write demo_lib [123, 125] = None
   \<and> GetAnnotations \<lparr>Annotations = None\<rparr> = None
   \<and> SetCreationSpecAnnotation demo_lib ''kvdi.io/creation-spec'' \<lparr>Annotations = None\<rparr>
        [123, 125] =
       (None, \<lparr>Annotations = Some [''kvdi.io/creation-spec'' \<mapsto> ''7b7d'']\<rparr>)"
proof -
  have lib: "json_Marshal demo_lib [123, 125] = Inr [123, 125]"
    "hash_Write demo_lib [123, 125] = None" "hash_Sum demo_lib [123, 125] = [123, 125]"
    by (simp_all add: demo_lib_def)
  have hex: "hex_bytes [123, 125] = ''7b7d''"
    by (simp add: hex_bytes_def digit_char_def)
  have nil: "GetAnnotations \<lparr>Annotations = None\<rparr> = None"
    by (simp add: GetAnnotations_def)
  have diff: "''team'' \<noteq> ''kvdi.io/creation-spec''" by simp
  have old: "map_index (GetAnnotations
      \<lparr>Annotations = Some [''team'' \<mapsto> ''vdi'', ''kvdi.io/creation-spec'' \<mapsto> ''0000'']\<rparr>) ''team''
      = Some ''vdi''"
    by (simp add: map_index_def GetAnnotations_def)
  show ?thesis
    using SetCreationSpecAnnotation_frame [of "''team''" "''kvdi.io/creation-spec''" demo_lib
        "\<lparr>Annotations = Some [''team'' \<mapsto> ''vdi'', ''kvdi.io/creation-spec'' \<mapsto> ''0000'']\<rparr>"
        "[123, 125]"]
      SetCreationSpecAnnotation_frame [of k "''kvdi.io/creation-spec''" demo_lib
        "\<lparr>Annotations = None\<rparr>" "[123, 125]" "[123, 125]"]
      lib hex nil diff old
    by (simp add: SetAnnotations_def)
qed

text \<open>
  Facts about the function with its pointers: for one call it gives what the function on
  values gives, with the object marshalled as it is at the call; a successful call
  stores the digest under the key in the map of the metadata and changes no other map.
\<close>

lemma SetCreationSpecAnnotation_ptr_refines:
  "SetCreationSpecAnnotation
     \<lparr>json_Marshal = (\<lambda>obj. json_Marshal lib (snd (annotationsOrMake h p), obj)),
      hash_Write = hash_Write lib, hash_Sum = hash_Sum lib\<rparr> key (deref h p) obj =
   (fst (SetCreationSpecAnnotation_ptr lib key h p obj),
    deref (snd (SetCreationSpecAnnotation_ptr lib key h p obj)) p)"
  by (cases "metaAt h p")
     (auto simp: SetCreationSpecAnnotation_def SetCreationSpecAnnotation_ptr_def
        annotationsOrMake_def deref_def GetAnnotations_def SetAnnotations_def Let_def
        split: sum.splits option.splits)

lemma SetCreationSpecAnnotation_ptr_ok:
  assumes "SetCreationSpecAnnotation_ptr lib key h p obj = (None, h')"
  shows "\<exists>spec a. json_Marshal lib (snd (annotationsOrMake h p), obj) = Inr spec
           \<and> metaAt h' = (metaAt h)(p \<mapsto> a)
           \<and> mapAt h' a key = Some (hex_bytes (hash_Sum lib spec))
           \<and> (\<forall>b. b \<noteq> a \<longrightarrow> mapAt h' b = mapAt h b)"
  using assms
  by (cases "metaAt h p")
     (auto simp: SetCreationSpecAnnotation_ptr_def annotationsOrMake_def Let_def
        split: sum.splits option.splits)

lemma CreationSpecsEqual_iff:
  "CreationSpecsEqual key m1 m2 \<longleftrightarrow>
     (\<exists>v. map_index (GetAnnotations m1) key = Some v \<and> map_index (GetAnnotations m2) key = Some v)"
  by (auto simp: CreationSpecsEqual_def Let_def split: option.splits)

lemma deref_index:
  "map_index (GetAnnotations (deref h p)) key =
     (case metaAt h p of None \<Rightarrow> None | Some a \<Rightarrow> mapAt h a key)"
  by (simp add: deref_def GetAnnotations_def map_index_def split: option.splits)

lemma two_calls_same_bytes:
  assumes c1: "SetCreationSpecAnnotation_ptr lib key h p1 obj = (None, h1)"
    and c2: "SetCreationSpecAnnotation_ptr lib key h1 p2 obj = (None, h2)"
    and same: "json_Marshal lib (snd (annotationsOrMake h p1), obj) =
               json_Marshal lib (snd (annotationsOrMake h1 p2), obj)"
  shows "CreationSpecsEqual key (deref h2 p1) (deref h2 p2)"
proof -
  obtain spec1 a1 where 1: "json_Marshal lib (snd (annotationsOrMake h p1), obj) = Inr spec1"
    "metaAt h1 = (metaAt h)(p1 \<mapsto> a1)"
    "mapAt h1 a1 key = Some (hex_bytes (hash_Sum lib spec1))"
    using SetCreationSpecAnnotation_ptr_ok [OF c1] by blast
  obtain spec2 a2 where 2: "json_Marshal lib (snd (annotationsOrMake h1 p2), obj) = Inr spec2"
    "metaAt h2 = (metaAt h1)(p2 \<mapsto> a2)"
    "mapAt h2 a2 key = Some (hex_bytes (hash_Sum lib spec2))"
    "\<forall>b. b \<noteq> a2 \<longrightarrow> mapAt h2 b = mapAt h1 b"
    using SetCreationSpecAnnotation_ptr_ok [OF c2] by blast
  have eq: "spec1 = spec2" using same 1(1) 2(1) by simp
  have m2: "map_index (GetAnnotations (deref h2 p2)) key = Some (hex_bytes (hash_Sum lib spec2))"
    using 2(2,3) by (simp add: deref_index)
  have m1: "map_index (GetAnnotations (deref h2 p1)) key = Some (hex_bytes (hash_Sum lib spec2))"
  proof (cases "p1 = p2")
    case True
    then show ?thesis using m2 by simp
  next
    case False
    then have f: "metaAt h2 p1 = Some a1" using 1(2) 2(2) by simp
    show ?thesis
    proof (cases "a1 = a2")
      case True
      then show ?thesis using f 2(3) by (simp add: deref_index)
    next
      case False
      then have "mapAt h2 a1 = mapAt h1 a1" using 2(4) by simp
      then show ?thesis using f 1(3) eq by (simp add: deref_index)
    qed
  qed
  show ?thesis using m1 m2 by (simp add: CreationSpecsEqual_iff)
qed

lemma two_calls_other_bytes:
  assumes c1: "SetCreationSpecAnnotation_ptr lib key h p1 obj = (None, h1)"
    and c2: "SetCreationSpecAnnotation_ptr lib key h1 p2 obj = (None, h2)"
    and apart: "p1 \<noteq> p2" "metaAt h2 p1 \<noteq> metaAt h2 p2"
    and m1: "json_Marshal lib (snd (annotationsOrMake h p1), obj) = Inr spec1"
    and m2: "json_Marshal lib (snd (annotationsOrMake h1 p2), obj) = Inr spec2"
    and differ: "hex_bytes (hash_Sum lib spec1) \<noteq> hex_bytes (hash_Sum lib spec2)"
  shows "\<not> CreationSpecsEqual key (deref h2 p1) (deref h2 p2)"
proof -
  obtain a1 where 1: "metaAt h1 = (metaAt h)(p1 \<mapsto> a1)"
    "mapAt h1 a1 key = Some (hex_bytes (hash_Sum lib spec1))"
    using SetCreationSpecAnnotation_ptr_ok [OF c1] m1 by auto
  obtain a2 where 2: "metaAt h2 = (metaAt h1)(p2 \<mapsto> a2)"
    "mapAt h2 a2 key = Some (hex_bytes (hash_Sum lib spec2))"
    "\<forall>b. b \<noteq> a2 \<longrightarrow> mapAt h2 b = mapAt h1 b"
    using SetCreationSpecAnnotation_ptr_ok [OF c2] m2 by auto
  have f: "metaAt h2 p1 = Some a1" "metaAt h2 p2 = Some a2" using 1(1) 2(1) apart(1) by simp_all
  then have "a1 \<noteq> a2" using apart(2) by simp
  then have "mapAt h2 a1 key = Some (hex_bytes (hash_Sum lib spec1))" using 2(3) 1(2) by simp
  then show ?thesis using f 2(2) differ by (simp add: CreationSpecsEqual_iff deref_index)
qed

lemma first_call:
  "SetCreationSpecAnnotation_ptr (meta_lib ''kvdi.io/creation-spec'')
      ''kvdi.io/creation-spec'' empty_heap 1 obj = (None, annotated_once obj)"
  "metaAt (annotated_once obj) = (\<lambda>p. None)(1 \<mapsto> 0)"
  "mapAt (annotated_once obj) = (\<lambda>a. Map.empty)(0 := [''kvdi.io/creation-spec'' \<mapsto> ''7b7d''])"
  "nextMap (annotated_once obj) = 1"
  by (simp_all add: annotated_once_def SetCreationSpecAnnotation_ptr_def annotationsOrMake_def
      empty_heap_def meta_lib_def deref_def GetAnnotations_def map_index_def hex_bytes_def
      digit_char_def)

lemma second_call_shared:
  "SetCreationSpecAnnotation_ptr (meta_lib ''kvdi.io/creation-spec'')
      ''kvdi.io/creation-spec'' (annotated_once 1) 2 1 = (None, annotated_twice 1)"
  "map_index (GetAnnotations (deref (annotated_twice 1) 1)) ''kvdi.io/creation-spec'' = Some ''7b7d''"
  "map_index (GetAnnotations (deref (annotated_twice 1) 2)) ''kvdi.io/creation-spec'' =
     Some ''7b376237647d''"
  by (simp_all add: annotated_twice_def SetCreationSpecAnnotation_ptr_def annotationsOrMake_def
      first_call meta_lib_def deref_def GetAnnotations_def map_index_def hex_bytes_def
      digit_char_def)

lemma second_call_apart:
  "SetCreationSpecAnnotation_ptr (meta_lib ''kvdi.io/creation-spec'')
      ''kvdi.io/creation-spec'' (annotated_once 3) 2 3 = (None, annotated_twice 3)"
  "json_Marshal (meta_lib ''kvdi.io/creation-spec'') (snd (annotationsOrMake empty_heap 1), 3) =
   json_Marshal (meta_lib ''kvdi.io/creation-spec'') (snd (annotationsOrMake (annotated_once 3) 2), 3)"
  by (simp_all add: annotated_twice_def SetCreationSpecAnnotation_ptr_def annotationsOrMake_def
      first_call meta_lib_def deref_def GetAnnotations_def map_index_def hex_bytes_def
      digit_char_def empty_heap_def)

text \<open>
  Claim C10, as stated, fails when the object shares its metadata with the first call:
  with \<^verbatim>\<open>meta = &obj.ObjectMeta\<close> the first call writes the annotation into the
  object itself, the second call marshals the changed object and stores another digest,
  and \<^verbatim>\<open>CreationSpecsEqual\<close> of the two metadata is false although both calls
  succeeded. Here the object is the one whose metadata is at address 1.
\<close>

theorem CreationSpecsEqual_shared_object_differs:
  "SetCreationSpecAnnotation_ptr (meta_lib ''kvdi.io/creation-spec'')
      ''kvdi.io/creation-spec'' empty_heap 1 1 = (None, annotated_once 1)
   \<and> SetCreationSpecAnnotation_ptr (meta_lib ''kvdi.io/creation-spec'')
      ''kvdi.io/creation-spec'' (annotated_once 1) 2 1 = (None, annotated_twice 1)
   \<and> map_index (GetAnnotations (deref (annotated_twice 1) 1)) ''kvdi.io/creation-spec'' =
       Some ''7b7d''
   \<and> map_index (GetAnnotations (deref (annotated_twice 1) 2)) ''kvdi.io/creation-spec'' =
       Some ''7b376237647d''
   \<and> \<not> CreationSpecsEqual ''kvdi.io/creation-spec''
        (deref (annotated_twice 1) 1) (deref (annotated_twice 1) 2)"
  using first_call(1) [of 1] second_call_shared
  by (simp add: CreationSpecsEqual_iff)

text \<open>
  Claim C10, amended. When \<^verbatim>\<open>SetCreationSpecAnnotation\<close> has succeeded on two
  metadata with the same object, and the object marshalled to the same bytes in both
  calls, \<^verbatim>\<open>CreationSpecsEqual\<close> of the two metadata is true. When either metadata
  has no creation-spec annotation (its map is \<^verbatim>\<open>nil\<close> or lacks the key),
  \<^verbatim>\<open>CreationSpecsEqual\<close> is false.
\<close>

theorem CreationSpecsEqual_after_set:
  "(SetCreationSpecAnnotation_ptr lib key h p1 obj = (None, h1)
      \<and> SetCreationSpecAnnotation_ptr lib key h1 p2 obj = (None, h2)
      \<and> json_Marshal lib (snd (annotationsOrMake h p1), obj) =
          json_Marshal lib (snd (annotationsOrMake h1 p2), obj)
      \<longrightarrow> CreationSpecsEqual key (deref h2 p1) (deref h2 p2))
   \<and> (map_index (GetAnnotations m1) key = None \<or> map_index (GetAnnotations m2) key = None
      \<longrightarrow> \<not> CreationSpecsEqual key m1 m2)"
proof -
  have lack: "map_index (GetAnnotations m1) key = None \<or> map_index (GetAnnotations m2) key = None
      \<longrightarrow> \<not> CreationSpecsEqual key m1 m2"
    by (auto simp: CreationSpecsEqual_iff)
  from two_calls_same_bytes [of lib key h p1 obj h1 p2 h2] lack show ?thesis by blast
qed

theorem CreationSpecsEqual_after_set_witness:
  "SetCreationSpecAnnotation_ptr (meta_lib ''kvdi.io/creation-spec'')
      ''kvdi.io/creation-spec'' empty_heap 1 3 = (None, annotated_once 3)
   \<and> SetCreationSpecAnnotation_ptr (meta_lib ''kvdi.io/creation-spec'')
      ''kvdi.io/creation-spec'' (annotated_once 3) 2 3 = (None, annotated_twice 3)
   \<and> json_Marshal (meta_lib ''kvdi.io/creation-spec'') (snd (annotationsOrMake empty_heap 1), 3) =
     json_Marshal (meta_lib ''kvdi.io/creation-spec'')
       (snd (annotationsOrMake (annotated_once 3) 2), 3)
   \<and> CreationSpecsEqual ''kvdi.io/creation-spec''
        (deref (annotated_twice 3) 1) (deref (annotated_twice 3) 2)
   \<and> map_index (GetAnnotations (deref empty_heap 1)) ''kvdi.io/creation-spec'' = None
   \<and> \<not> CreationSpecsEqual ''kvdi.io/creation-spec''
        (deref empty_heap 1) (deref (annotated_twice 3) 2)"
proof -
  have lacks: "map_index (GetAnnotations (deref empty_heap 1)) ''kvdi.io/creation-spec'' = None"
    by (simp add: deref_index empty_heap_def)
  show ?thesis
    using CreationSpecsEqual_after_set [of "meta_lib ''kvdi.io/creation-spec''"
        "''kvdi.io/creation-spec''" empty_heap 1 3 "annotated_once 3" 2 "annotated_twice 3"
        "deref empty_heap 1" "deref (annotated_twice 3) 2"]
      first_call(1) [of 3] second_call_apart lacks
    by simp
qed

end
